theory Spec2Isabelle
  imports Main "HOL-Library.Sublist"
begin

section \<open>Python values and exceptions\<close>

text \<open>
  The scraper (src/scraper.py) works on Python strings, unbounded integers and lists.
  Strings are modelled as \<open>string\<close> (characters with code points below 256), integers as
  \<open>int\<close>.  Every exception the code can raise is a value: a computation returns
  \<open>Inl e\<close> when it raises \<open>e\<close> and \<open>Inr v\<close> when it returns \<open>v\<close>.

  \<open>SystemExit\<close> is what the builtin \<open>exit()\<close> raises; it derives from \<open>BaseException\<close>
  and is therefore not caught by \<open>except Exception\<close>.  \<open>RequestException\<close> stands for
  whatever \<open>requests.get\<close> raises when the transfer fails.
\<close>

datatype exception = IndexError | AttributeError | ValueError | RequestException | SystemExit

type_synonym 'a result = "exception + 'a"

definition and_then :: "'a result \<Rightarrow> ('a \<Rightarrow> 'b result) \<Rightarrow> 'b result" where
  "and_then m f = (case m of Inl e \<Rightarrow> Inl e | Inr x \<Rightarrow> f x)"

text \<open>\<open>xs[i]\<close> with a constant index \<open>i \<ge> 0\<close>: IndexError out of range.\<close>

definition index :: "'a list \<Rightarrow> nat \<Rightarrow> 'a result" where
  "index xs i = (if i < length xs then Inr (xs ! i) else Inl IndexError)"

text \<open>Calling a method on the result of a lookup: \<open>None\<close> has no attributes.\<close>

definition attr_of :: "'a option \<Rightarrow> 'a result" where
  "attr_of x = (case x of None \<Rightarrow> Inl AttributeError | Some v \<Rightarrow> Inr v)"

subsection \<open>String operations\<close>

text \<open>\<open>sub in s\<close>.\<close>

fun contains :: "string \<Rightarrow> string \<Rightarrow> bool" where
  "contains sub [] = (sub = [])"
| "contains sub (c # cs) = (prefix sub (c # cs) \<or> contains sub cs)"

text \<open>
  \<open>s.split(sep)\<close> and \<open>s.replace(old, new)\<close> for a non-empty \<open>sep\<close> and \<open>old\<close> (the
  source only passes non-empty literals): a scan from the left, non-overlapping.
\<close>

function split_from :: "string \<Rightarrow> string \<Rightarrow> string \<Rightarrow> string list" where
  "split_from sep cur [] = [cur]"
| "split_from sep cur (c # cs) =
     (if sep \<noteq> [] \<and> prefix sep (c # cs)
      then cur # split_from sep [] (drop (length sep) (c # cs))
      else split_from sep (cur @ [c]) cs)"
  by pat_completeness auto
termination
  by (relation "measure (\<lambda>(sep, cur, s). length s)") (auto simp: neq_Nil_conv)

definition split :: "string \<Rightarrow> string \<Rightarrow> string list" where
  "split s sep = split_from sep [] s"

function replace :: "string \<Rightarrow> string \<Rightarrow> string \<Rightarrow> string" where
  "replace [] old new = []"
| "replace (c # cs) old new =
     (if old \<noteq> [] \<and> prefix old (c # cs)
      then new @ replace (drop (length old) (c # cs)) old new
      else c # replace cs old new)"
  by pat_completeness auto
termination
  by (relation "measure (\<lambda>(s, old, new). length s)") (auto simp: neq_Nil_conv)

text \<open>\<open>sep.join(xs)\<close>.\<close>

fun join :: "string \<Rightarrow> string list \<Rightarrow> string" where
  "join sep [] = []"
| "join sep [x] = x"
| "join sep (x # y # ys) = x @ sep @ join sep (y # ys)"

text \<open>
  \<open>str.isspace\<close> on the code points below 256: tab, line feed, vertical tab, form feed,
  carriage return, the separators 0x1C to 0x1F, space, NEL (0x85) and the no-break
  space (0xA0).  \<open>s.strip()\<close> removes them from both ends.
\<close>

definition isspace :: "char \<Rightarrow> bool" where
  "isspace c = (c \<in> set [CHR 0x09, CHR 0x0A, CHR 0x0B, CHR 0x0C, CHR 0x0D, CHR 0x1C,
                           CHR 0x1D, CHR 0x1E, CHR 0x1F, CHR 0x20, CHR 0x85, CHR 0xA0])"

definition strip :: "string \<Rightarrow> string" where
  "strip s = rev (dropWhile isspace (rev (dropWhile isspace s)))"

subsection \<open>Integers and their decimal text\<close>

definition digit_char :: "nat \<Rightarrow> char" where
  "digit_char d = char_of (48 + d)"

function str_nat :: "nat \<Rightarrow> string" where
  "str_nat n = (if n < 10 then [digit_char n] else str_nat (n div 10) @ [digit_char (n mod 10)])"
  by pat_completeness auto
termination
  by (relation "measure id") auto

declare str_nat.simps [simp del]

text \<open>\<open>str(i)\<close> for an integer \<open>i\<close>.\<close>

definition str :: "int \<Rightarrow> string" where
  "str i = (if i < 0 then CHR ''-'' # str_nat (nat (- i)) else str_nat (nat i))"

text \<open>\<open>s.zfill(width)\<close>: zeros go after a leading sign.\<close>

definition zfill :: "string \<Rightarrow> nat \<Rightarrow> string" where
  "zfill s width =
     (if width \<le> length s then s
      else (case s of
              c # cs \<Rightarrow>
                if c = CHR ''+'' \<or> c = CHR ''-''
                then c # replicate (width - length s) CHR ''0'' @ cs
                else replicate (width - length s) CHR ''0'' @ s
            | [] \<Rightarrow> replicate width CHR ''0''))"

text \<open>
  \<open>int(s)\<close>: surrounding whitespace is ignored, a sign is optional, and the digits may be
  grouped by single underscores.  Anything else raises ValueError.
\<close>

definition isdigit :: "char \<Rightarrow> bool" where
  "isdigit c = (48 \<le> (of_char c :: nat) \<and> (of_char c :: nat) \<le> 57)"

definition digit_val :: "char \<Rightarrow> nat" where
  "digit_val c = of_char c - 48"

fun digits_from :: "nat \<Rightarrow> string \<Rightarrow> nat option" where
  "digits_from acc [] = Some acc"
| "digits_from acc [c] = (if isdigit c then Some (10 * acc + digit_val c) else None)"
| "digits_from acc (c # d # ds) =
     (if isdigit c then digits_from (10 * acc + digit_val c) (d # ds)
      else if c = CHR ''_'' \<and> isdigit d then digits_from (10 * acc + digit_val d) ds
      else None)"

definition digits :: "string \<Rightarrow> nat option" where
  "digits s = (case s of [] \<Rightarrow> None
               | c # cs \<Rightarrow> if isdigit c then digits_from (digit_val c) cs else None)"

definition py_int :: "string \<Rightarrow> int result" where
  "py_int s =
     (let t = strip s;
          (neg, body) = (case t of
                           c # cs \<Rightarrow> if c = CHR ''-'' then (True, cs)
                                     else if c = CHR ''+'' then (False, cs)
                                     else (False, t)
                         | [] \<Rightarrow> (False, t))
      in case digits body of
           None \<Rightarrow> Inl ValueError
         | Some n \<Rightarrow> Inr (if neg then - int n else int n))"

section \<open>The parsed document\<close>

text \<open>
  \<open>bs4.BeautifulSoup(data.text, 'html.parser')\<close> yields a tree of tags and text nodes.  A
  tag has a name, an attribute dictionary and a list of children.  The value of the
  attribute \<open>class\<close> is the list of its whitespace-separated tokens; every other attribute
  used by the scraper has a plain string value.
\<close>

datatype attr_value = AttrStr string | AttrList "string list"

datatype node = NavigableString string | Tag string "(string \<times> attr_value) list" "node list"

text \<open>
  An element of a document is addressed by the child indices leading to it from the
  root, so that parents, siblings and the following elements can be reached.
\<close>

type_synonym path = "nat list"
type_synonym element = "path \<times> node"

fun contents :: "node \<Rightarrow> node list" where
  "contents (NavigableString s) = []"
| "contents (Tag n a cs) = cs"

fun node_at :: "node \<Rightarrow> path \<Rightarrow> node option" where
  "node_at n [] = Some n"
| "node_at n (i # p) =
     (if i < length (contents n) then node_at (contents n ! i) p else None)"

text \<open>\<open>tag.text\<close>: all text below the tag, in document order.\<close>

fun get_text :: "node \<Rightarrow> string" where
  "get_text (NavigableString s) = s"
| "get_text (Tag n a cs) = concat (map get_text cs)"

text \<open>
  \<open>tag.string\<close>: the text of a tag whose only child is a text node, or whose only child is
  a tag that itself has a \<open>string\<close>; otherwise \<open>None\<close>.
\<close>

fun string_of :: "node \<Rightarrow> string option" where
  "string_of (NavigableString s) = Some s"
| "string_of (Tag n a [c]) = string_of c"
| "string_of (Tag n a cs) = None"

text \<open>\<open>tag.descendants\<close>: everything below a tag, in document order.\<close>

fun descendants :: "path \<Rightarrow> node \<Rightarrow> element list"
  and descendants_from :: "path \<Rightarrow> nat \<Rightarrow> node list \<Rightarrow> element list" where
  "descendants p (NavigableString s) = []"
| "descendants p (Tag n a cs) = descendants_from p 0 cs"
| "descendants_from p i [] = []"
| "descendants_from p i (c # cs) =
     (p @ [i], c) # descendants (p @ [i]) c @ descendants_from p (Suc i) cs"

subsection \<open>Searching\<close>

text \<open>
  How a search criterion matches an attribute value: a missing attribute matches only an
  empty criterion; a string matches by equality; a token list matches when one token,
  or the tokens joined by spaces, equal the criterion.
\<close>

fun attr_matches :: "attr_value option \<Rightarrow> string \<Rightarrow> bool" where
  "attr_matches None v = (v = [])"
| "attr_matches (Some (AttrStr s)) v = (s = v)"
| "attr_matches (Some (AttrList xs)) v = (List.member xs v \<or> join '' '' xs = v)"

text \<open>
  \<open>matches name attrs txt nd\<close>: the tag \<open>nd\<close> has the name \<open>name\<close>, every attribute criterion
  of \<open>attrs\<close> holds, and, when a \<open>string=\<close> criterion is given, \<open>nd.string\<close> is not \<open>None\<close> and
  satisfies it.
\<close>

fun matches :: "string \<Rightarrow> (string \<times> string) list \<Rightarrow> (string \<Rightarrow> bool) option \<Rightarrow> node \<Rightarrow> bool" where
  "matches name attrs txt (NavigableString s) = False"
| "matches name attrs txt (Tag n a cs) =
     (n = name \<and>
      list_all (\<lambda>(k, v). attr_matches (map_of a k) v) attrs \<and>
      (case txt of
         None \<Rightarrow> True
       | Some P \<Rightarrow> (case string_of (Tag n a cs) of None \<Rightarrow> False | Some s \<Rightarrow> P s)))"

text \<open>\<open>el.find_all(name, attrs, string=txt)\<close> and \<open>el.find(name, attrs, string=txt)\<close>.\<close>

definition find_all ::
  "element \<Rightarrow> string \<Rightarrow> (string \<times> string) list \<Rightarrow> (string \<Rightarrow> bool) option \<Rightarrow> element list" where
  "find_all el name attrs txt =
     filter (\<lambda>(p, nd). matches name attrs txt nd) (descendants (fst el) (snd el))"

definition find ::
  "element \<Rightarrow> string \<Rightarrow> (string \<times> string) list \<Rightarrow> (string \<Rightarrow> bool) option \<Rightarrow> element option" where
  "find el name attrs txt =
     (case find_all el name attrs txt of [] \<Rightarrow> None | e # es \<Rightarrow> Some e)"

text \<open>
  \<open>el.find_next(name)\<close>: the first matching tag among the elements that start after \<open>el\<close>
  starts, in document order (the descendants of \<open>el\<close> come first).
\<close>

definition next_elements :: "node \<Rightarrow> element \<Rightarrow> element list" where
  "next_elements soup el = tl (dropWhile (\<lambda>(p, nd). p \<noteq> fst el) (([], soup) # descendants [] soup))"

definition find_next :: "node \<Rightarrow> element \<Rightarrow> string \<Rightarrow> element option" where
  "find_next soup el name =
     (case filter (\<lambda>(p, nd). matches name [] None nd) (next_elements soup el) of
        [] \<Rightarrow> None | e # es \<Rightarrow> Some e)"

text \<open>\<open>el.find_next_siblings(name)\<close>: the matching tags after \<open>el\<close> under the same parent.\<close>

definition next_siblings :: "node \<Rightarrow> element \<Rightarrow> node list" where
  "next_siblings soup el =
     (case fst el of
        [] \<Rightarrow> []
      | i # p \<Rightarrow> (case node_at soup (butlast (fst el)) of
                    None \<Rightarrow> []
                  | Some parent \<Rightarrow> drop (Suc (last (fst el))) (contents parent)))"

definition find_next_siblings :: "node \<Rightarrow> element \<Rightarrow> string \<Rightarrow> node list" where
  "find_next_siblings soup el name = filter (matches name [] None) (next_siblings soup el)"

text \<open>\<open>el.find_parent(name)\<close>: the nearest enclosing tag with that name.\<close>

fun parents :: "node \<Rightarrow> path \<Rightarrow> element list" where
  "parents soup [] = []"
| "parents soup (i # p) =
     (case node_at soup (butlast (i # p)) of
        None \<Rightarrow> parents soup (butlast (i # p))
      | Some nd \<Rightarrow> (butlast (i # p), nd) # parents soup (butlast (i # p)))"

definition find_parent :: "node \<Rightarrow> element \<Rightarrow> string \<Rightarrow> element option" where
  "find_parent soup el name =
     (case filter (\<lambda>(p, nd). matches name [] None nd) (parents soup (fst el)) of
        [] \<Rightarrow> None | e # es \<Rightarrow> Some e)"

section \<open>Field extraction (the \<open>try\<close> block of \<open>extract_statistics\<close>)\<close>

subsection \<open>Height and weight\<close>

text \<open>
  Both fields are first split on the legacy delimiter (carriage return, line feed, three
  tabs).  When the height cell contains a \<open>td\<close> whose string is \<open>Standard\<close>, both are
  recomputed from the \<open>td\<close> that follows the \<open>Standard\<close> cell: \<open>replace('"', '" ')\<close> on the
  height, \<open>replace('lbs', 'lbs ')\<close> on the weight, then \<open>split(" ")\<close>.
\<close>

definition legacy_delimiter :: string where
  "legacy_delimiter = [CHR 0x0D, CHR 0x0A, CHR 0x09, CHR 0x09, CHR 0x09]"

definition is_Standard :: "string \<Rightarrow> bool" where
  "is_Standard s = (s = ''Standard'')"

definition extract_height_weight :: "node \<Rightarrow> element list \<Rightarrow> (string list \<times> string list) result" where
  "extract_height_weight soup center_panel_info =
     and_then (index center_panel_info 6) (\<lambda>cell6.
     and_then (index center_panel_info 7) (\<lambda>cell7.
       case find cell6 ''td'' [] (Some is_Standard) of
         None \<Rightarrow>
           Inr (split (get_text (snd cell6)) legacy_delimiter,
                split (get_text (snd cell7)) legacy_delimiter)
       | Some standard6 \<Rightarrow>
           and_then (attr_of (find_next soup standard6 ''td'')) (\<lambda>next6.
           and_then (attr_of (find cell7 ''td'' [] (Some is_Standard))) (\<lambda>standard7.
           and_then (attr_of (find_next soup standard7 ''td'')) (\<lambda>next7.
             Inr (split (replace (get_text (snd next6)) [CHR 0x22] [CHR 0x22, CHR '' '']) '' '',
                  split (replace (get_text (snd next7)) ''lbs'' ''lbs '') '' ''))))))"

subsection \<open>Base statistics\<close>

text \<open>
  \<open>re.compile("Base Stats - Total.*")\<close> is applied with \<open>search\<close>: it succeeds exactly when
  the text contains \<open>Base Stats - Total\<close>, since \<open>.*\<close> also matches the empty string.
\<close>

definition base_stats_pattern :: "string \<Rightarrow> bool" where
  "base_stats_pattern s = contains ''Base Stats - Total'' s"

definition extract_base_stats :: "node \<Rightarrow> element \<Rightarrow> node list result" where
  "extract_base_stats soup div1 =
     and_then (attr_of (find div1 ''td'' [] (Some base_stats_pattern))) (\<lambda>total.
       Inr (find_next_siblings soup total ''td''))"

subsection \<open>Moves\<close>

fun level_up_rows :: "element list \<Rightarrow> string list \<Rightarrow> string list" where
  "level_up_rows [] level_up_moves = level_up_moves"
| "level_up_rows (row # rows) level_up_moves =
     (let cols = find_all row ''td'' [] None in
      if 2 \<le> length cols
      then level_up_rows rows
             (level_up_moves @
              [strip (get_text (snd (cols ! 0))) @ '': '' @ strip (get_text (snd (cols ! 1)))])
      else level_up_rows rows level_up_moves)"

definition extract_level_up_moves :: "node \<Rightarrow> string list result" where
  "extract_level_up_moves soup =
     and_then (attr_of (find ([], soup) ''a'' [(''name'', ''standardlevel'')] None)) (\<lambda>anchor.
       case find_parent soup anchor ''table'' of
         None \<Rightarrow> Inr []
       | Some standard_level_table \<Rightarrow>
           Inr (level_up_rows (drop 2 (find_all standard_level_table ''tr'' [] None)) []))"

fun tm_hm_rows :: "element list \<Rightarrow> string list \<Rightarrow> string list" where
  "tm_hm_rows [] tm_hm_moves = tm_hm_moves"
| "tm_hm_rows (row # rows) tm_hm_moves =
     (let cols = find_all row ''td'' [] None in
      if 2 \<le> length cols
      then tm_hm_rows rows
             (tm_hm_moves @
              [strip (get_text (snd (cols ! 0))) @ '': '' @ strip (get_text (snd (cols ! 1)))])
      else tm_hm_rows rows tm_hm_moves)"

definition extract_tm_hm_moves :: "node \<Rightarrow> string list result" where
  "extract_tm_hm_moves soup =
     and_then (attr_of (find ([], soup) ''a'' [(''name'', ''tmhm'')] None)) (\<lambda>anchor.
       case find_parent soup anchor ''table'' of
         None \<Rightarrow> Inr []
       | Some tm_hm_table \<Rightarrow>
           Inr (tm_hm_rows (drop 2 (find_all tm_hm_table ''tr'' [] None)) []))"

text \<open>
  The egg-moves lookup sits in its own \<open>try\<close>: an AttributeError leaves \<open>egg_table = None\<close>,
  any other exception would propagate.
\<close>

fun egg_rows :: "element list \<Rightarrow> string list \<Rightarrow> string list" where
  "egg_rows [] egg_moves = egg_moves"
| "egg_rows (row # rows) egg_moves =
     (let cols = find_all row ''td'' [] None in
      if 2 \<le> length cols
      then egg_rows rows (egg_moves @ [strip (get_text (snd (cols ! 0)))])
      else egg_rows rows egg_moves)"

definition find_egg_table :: "node \<Rightarrow> element option result" where
  "find_egg_table soup =
     (case and_then (attr_of (find ([], soup) ''a'' [(''name'', ''eggmoves'')] None))
             (\<lambda>anchor. Inr (find_parent soup anchor ''table'')) of
        Inl e \<Rightarrow> if e = AttributeError then Inr None else Inl e
      | Inr egg_table \<Rightarrow> Inr egg_table)"

definition extract_egg_moves :: "node \<Rightarrow> string list result" where
  "extract_egg_moves soup =
     and_then (find_egg_table soup) (\<lambda>egg_table.
       case egg_table of
         None \<Rightarrow> Inr []
       | Some table \<Rightarrow> Inr (egg_rows (drop 2 (find_all table ''tr'' [] None)) []))"

subsection \<open>Abilities\<close>

fun abilities_cells :: "element list \<Rightarrow> string list \<Rightarrow> string list" where
  "abilities_cells [] abilities = abilities"
| "abilities_cells (cell # cells) abilities =
     (if contains ''Hidden Ability'' (get_text (snd cell))
      then abilities_cells cells (abilities @ [strip (get_text (snd cell)) @ '' (Hidden)''])
      else abilities_cells cells (abilities @ [strip (get_text (snd cell))]))"

fun abilities_rows :: "element list \<Rightarrow> string list \<Rightarrow> string list" where
  "abilities_rows [] abilities = abilities"
| "abilities_rows (row # rows) abilities =
     (if contains ''Abilities'' (get_text (snd row))
      then abilities_rows rows (abilities_cells (find_all row ''td'' [] None) abilities)
      else abilities_rows rows abilities)"

definition extract_abilities :: "node \<Rightarrow> string list" where
  "extract_abilities soup =
     (case find ([], soup) ''table'' [(''class'', ''dextable'')] None of
        None \<Rightarrow> []
      | Some abilities_table \<Rightarrow> abilities_rows (find_all abilities_table ''tr'' [] None) [])"

subsection \<open>The whole block\<close>

text \<open>The variables the \<open>try\<close> block leaves behind for the construction of the record.\<close>

record fields =
  f_center_panel_info :: "element list"
  f_height :: "string list"
  f_weight :: "string list"
  f_base_stats_td :: "node list"
  f_level_up_moves :: "string list"
  f_tm_hm_moves :: "string list"
  f_egg_moves :: "string list"
  f_abilities :: "string list"

definition try_block :: "node \<Rightarrow> fields result" where
  "try_block soup =
     (let all_divs = find_all ([], soup) ''div'' [(''align'', ''center'')] None in
      and_then (index all_divs 1) (\<lambda>div1.
      let center_panel_info = find_all div1 ''td'' [(''class'', ''fooinfo'')] None in
      and_then (extract_height_weight soup center_panel_info) (\<lambda>(h, w).
      and_then (extract_base_stats soup div1) (\<lambda>base_stats_td.
      and_then (extract_level_up_moves soup) (\<lambda>lvl.
      and_then (extract_tm_hm_moves soup) (\<lambda>tm.
      and_then (extract_egg_moves soup) (\<lambda>egg.
        Inr \<lparr>f_center_panel_info = center_panel_info, f_height = h, f_weight = w,
             f_base_stats_td = base_stats_td, f_level_up_moves = lvl, f_tm_hm_moves = tm,
             f_egg_moves = egg, f_abilities = extract_abilities soup\<rparr>)))))))"

subsection \<open>The record of one Pokemon\<close>

text \<open>The dictionary built by \<open>extract_statistics\<close>, one field per key.\<close>

record pokemon =
  name :: string
  number :: string
  classification :: string
  height :: "string list"
  weight :: "string list"
  hit_points :: int
  abilities :: "string list"
  attack :: int
  defense :: int
  special :: int
  speed :: int
  level_up_moves :: "string list"
  tm_hm_moves :: "string list"
  egg_moves :: "string list"

text \<open>
  The dictionary literal after the \<open>try\<close> block, its entries evaluated in the order
  written: an index out of range raises IndexError, a statistic that is not an integer
  raises ValueError.
\<close>

definition stat :: "node list \<Rightarrow> nat \<Rightarrow> int result" where
  "stat base_stats_td i = and_then (index base_stats_td i) (\<lambda>td. py_int (get_text td))"

definition assemble :: "int \<Rightarrow> fields \<Rightarrow> pokemon result" where
  "assemble poke_id f =
     and_then (index (f_center_panel_info f) 1) (\<lambda>cell1.
     and_then (index (f_center_panel_info f) 5) (\<lambda>cell5.
     and_then (stat (f_base_stats_td f) 0) (\<lambda>hp.
     and_then (stat (f_base_stats_td f) 1) (\<lambda>att.
     and_then (stat (f_base_stats_td f) 2) (\<lambda>def.
     and_then (stat (f_base_stats_td f) 3) (\<lambda>spc.
     and_then (stat (f_base_stats_td f) 4) (\<lambda>spd.
       Inr \<lparr>name = get_text (snd cell1),
            number = ''#'' @ zfill (str poke_id) 3,
            classification = get_text (snd cell5),
            height = f_height f,
            weight = f_weight f,
            hit_points = hp,
            abilities = f_abilities f,
            attack = att,
            defense = def,
            special = spc,
            speed = spd,
            level_up_moves = f_level_up_moves f,
            tm_hm_moves = f_tm_hm_moves f,
            egg_moves = f_egg_moves f\<rparr>)))))))"

section \<open>The run: fetching, logging, printing and saving\<close>

text \<open>
  What a run does to the outside world is recorded as a list of events, in the order
  they happen: a GET of a URL, a line logged at level INFO or ERROR, the exception logged
  by the handler of the main program, a call of \<open>display_formatted\<close>, and a call of
  \<open>save_to_json\<close> (which opens the file for writing and dumps the list into it).

  The web is a function from a URL to what \<open>requests.get\<close> followed by the parser yields
  there: the parsed document, or the exception raised by the transfer.
\<close>

datatype event =
    Get string
  | LogInfo string
  | LogError string
  | LogException exception
  | DisplayFormatted pokemon
  | SaveToJson string "pokemon list"

type_synonym web = "string \<Rightarrow> node result"

record args =
  args_save :: bool
  args_first :: int
  args_last :: int
  args_verbose :: bool

definition OUTPUT_FILE :: string where
  "OUTPUT_FILE = ''pokemon.json''"

text \<open>\<open>except Exception\<close> catches everything but \<open>SystemExit\<close>.\<close>

fun is_Exception :: "exception \<Rightarrow> bool" where
  "is_Exception SystemExit = False"
| "is_Exception e = True"

definition url_of :: "int \<Rightarrow> string" where
  "url_of poke_id = ''https://serebii.net/pokedex-sv/'' @ zfill (str poke_id) 3 @ ''.shtml''"

definition extraction_error_message :: "string \<Rightarrow> string" where
  "extraction_error_message url =
     ''There was an error trying to identify HTML elements on the webpage. URL: '' @ url"

definition extract_statistics :: "web \<Rightarrow> int \<Rightarrow> pokemon result \<times> event list" where
  "extract_statistics web poke_id =
     (let url = url_of poke_id in
      case web url of
        Inl e \<Rightarrow> (Inl e, [Get url])
      | Inr soup \<Rightarrow>
          (case try_block soup of
             Inl e \<Rightarrow>
               if is_Exception e
               then (Inl e, [Get url, LogError (extraction_error_message url)])
               else (Inl e, [Get url])
           | Inr f \<Rightarrow> (assemble poke_id f, [Get url])))"

text \<open>
  The loop of \<open>scrape_pokemon\<close> over the IDs still to do, with the list built so far.  An
  exception leaves the loop at once.
\<close>

fun scrape_loop :: "web \<Rightarrow> args \<Rightarrow> int list \<Rightarrow> pokemon list \<Rightarrow> pokemon list result \<times> event list" where
  "scrape_loop web a [] data_list = (Inr data_list, [])"
| "scrape_loop web a (poke_id # ids) data_list =
     (case extract_statistics web poke_id of
        (Inl e, ev) \<Rightarrow> (Inl e, ev)
      | (Inr data, ev) \<Rightarrow>
          (let shown = (if args_verbose a \<or> \<not> args_save a
                        then DisplayFormatted data
                        else LogInfo (''Scraped '' @ number data @ '' '' @ name data));
               (r, ev') = scrape_loop web a ids (data_list @ [data])
           in (r, ev @ [shown] @ ev')))"

definition scrape_pokemon :: "web \<Rightarrow> int \<Rightarrow> int \<Rightarrow> args \<Rightarrow> unit result \<times> event list" where
  "scrape_pokemon web first_id last_id a =
     (case scrape_loop web a [first_id..last_id] [] of
        (Inl e, ev) \<Rightarrow> (Inl e, ev)
      | (Inr data_list, ev) \<Rightarrow>
          if args_save a
          then (Inr (), ev @ [LogInfo (''Saving to '' @ OUTPUT_FILE), SaveToJson OUTPUT_FILE data_list])
          else (Inr (), ev @ [LogInfo (''All Pok'' @ [CHR 0xE9] @
                                       ''mon retrieved! To save to JSON, use the --save flag'')]))"

text \<open>\<open>exit()\<close> raises \<open>SystemExit\<close> without an exit code.\<close>

definition validate_input :: "int \<Rightarrow> int \<Rightarrow> (int \<times> int) result \<times> event list" where
  "validate_input first_id_input last_id_input =
     (if 1026 \<le> first_id_input \<or> 1026 \<le> last_id_input
      then (Inl SystemExit,
            [LogError (''Error: This Pok'' @ [CHR 0xE9] @ ''mon is not yet supported!'')])
      else if last_id_input < first_id_input
      then (Inr (first_id_input, first_id_input), [])
      else (Inr (first_id_input, last_id_input), []))"

text \<open>
  The main program: everything runs under \<open>except Exception as ex: logging.error(ex); raise\<close>.
\<close>

definition handler :: "'a result \<times> event list \<Rightarrow> 'a result \<times> event list" where
  "handler run =
     (case run of
        (Inl e, ev) \<Rightarrow> if is_Exception e then (Inl e, ev @ [LogException e]) else (Inl e, ev)
      | (Inr v, ev) \<Rightarrow> (Inr v, ev))"

definition main :: "web \<Rightarrow> args \<Rightarrow> unit result \<times> event list" where
  "main web a =
     handler
       (case validate_input (args_first a) (args_last a) of
          (Inl e, ev) \<Rightarrow> (Inl e, LogInfo ''Extracting data from Serebii.net'' # ev)
        | (Inr (first_id, last_id), ev) \<Rightarrow>
            (case scrape_pokemon web first_id last_id a of
               (r, ev') \<Rightarrow> (r, LogInfo ''Extracting data from Serebii.net'' # ev @ ev')))"

text \<open>
  The exit status of the process: 0 when the program ends normally and when \<open>SystemExit\<close>
  carries no code, 1 when an exception reaches the top.
\<close>

fun exit_status :: "unit result \<Rightarrow> nat" where
  "exit_status (Inr u) = 0"
| "exit_status (Inl SystemExit) = 0"
| "exit_status (Inl e) = 1"

text \<open>What a list of events shows on the console, fetches, and writes to the file.\<close>

fun displayed :: "event list \<Rightarrow> pokemon list" where
  "displayed [] = []"
| "displayed (DisplayFormatted d # ev) = d # displayed ev"
| "displayed (e # ev) = displayed ev"

fun saved :: "event list \<Rightarrow> pokemon list list" where
  "saved [] = []"
| "saved (SaveToJson file data_list # ev) = data_list # saved ev"
| "saved (e # ev) = saved ev"

fun fetched :: "event list \<Rightarrow> string list" where
  "fetched [] = []"
| "fetched (Get url # ev) = url # fetched ev"
| "fetched (e # ev) = fetched ev"

section \<open>Example documents\<close>

text \<open>
  Small pages with the structure the scraper expects, used to run the definitions on
  concrete inputs.  \<open>page\<close> takes the height and weight cells, the label of the statistics
  row and the tables that follow it.
\<close>

definition td :: "string \<Rightarrow> node" where
  "td s = Tag ''td'' [] [NavigableString s]"

definition fooinfo :: "node list \<Rightarrow> node" where
  "fooinfo cs = Tag ''td'' [(''class'', AttrList [''fooinfo''])] cs"

definition anchor_table :: "string \<Rightarrow> node list \<Rightarrow> node" where
  "anchor_table nm rows =
     Tag ''table'' []
       (Tag ''tr'' [] [Tag ''td'' [] [Tag ''a'' [(''name'', AttrStr nm)] []]] #
        Tag ''tr'' [] [td ''Level'', td ''Attack Name''] # rows)"

definition page :: "node \<Rightarrow> node \<Rightarrow> string \<Rightarrow> node list \<Rightarrow> node" where
  "page height_cell weight_cell stats_label tables =
     Tag ''[document]'' []
       [Tag ''div'' [(''align'', AttrStr ''center'')] [],
        Tag ''div'' [(''align'', AttrStr ''center'')]
          ([Tag ''table'' [(''class'', AttrList [''dextable''])]
             [Tag ''tr'' []
                [fooinfo [], fooinfo [NavigableString ''Bulbasaur''], fooinfo [], fooinfo [],
                 fooinfo [], fooinfo [NavigableString ''Seed''], height_cell, weight_cell],
              Tag ''tr'' []
                [td ''Abilities: Overgrow'', td ''Hidden Ability: Chlorophyll '']],
            Tag ''table'' []
              [Tag ''tr'' []
                 [td stats_label, td ''45'', td ''49'', td ''49'', td ''65'', td ''45'']]]
           @ tables)]"

definition level_table :: node where
  "level_table =
     anchor_table ''standardlevel''
       [Tag ''tr'' [] [td ''1'', td '' Tackle ''],
        Tag ''tr'' [] [td ''spacer''],
        Tag ''tr'' [] [td ''3'', td ''Growl'', td ''Normal'']]"

definition tm_table :: node where
  "tm_table = anchor_table ''tmhm'' [Tag ''tr'' [] [td ''TM01'', td ''Take Down'']]"

definition legacy_height :: node where
  "legacy_height = fooinfo [NavigableString (''2ft 04in'' @ legacy_delimiter @ ''0.7m'')]"

definition legacy_weight :: node where
  "legacy_weight = fooinfo [NavigableString (''15.2lbs'' @ legacy_delimiter @ ''6.9kg'')]"

definition legacy_page :: node where
  "legacy_page = page legacy_height legacy_weight ''Base Stats - Total: 318'' [level_table, tm_table]"

text \<open>A page of the Standard/Metric variant: the height after the label reads 6'2".\<close>

definition standard_page :: node where
  "standard_page =
     page (fooinfo [Tag ''table'' []
             [Tag ''tr'' [] [td ''Standard'', td [CHR ''6'', CHR 0x27, CHR ''2'', CHR 0x22]]]])
          (fooinfo [Tag ''table'' [] [Tag ''tr'' [] [td ''Standard'', td ''15.2lbs'']]])
          ''Base Stats - Total: 318'' [level_table, tm_table]"

text \<open>Pages that lack the statistics cell, and the level-up anchor.\<close>

definition no_stats_page :: node where
  "no_stats_page = page legacy_height legacy_weight ''Stats'' [level_table, tm_table]"

definition no_level_page :: node where
  "no_level_page = page legacy_height legacy_weight ''Base Stats - Total: 318'' [tm_table]"

text \<open>A page with a second table of class \<open>dextable\<close> after the first.\<close>

definition two_dextables_page :: node where
  "two_dextables_page =
     page legacy_height legacy_weight ''Base Stats - Total: 318''
       [level_table, tm_table,
        Tag ''table'' [(''class'', AttrList [''dextable''])]
          [Tag ''tr'' [] [td ''Abilities: Blaze'']]]"

text \<open>Webs that serve one page at every URL, and a web where every transfer fails.\<close>

definition legacy_web :: web where
  "legacy_web url = Inr legacy_page"

definition standard_web :: web where
  "standard_web url = Inr standard_page"

definition no_stats_web :: web where
  "no_stats_web url = Inr no_stats_page"

definition no_level_web :: web where
  "no_level_web url = Inr no_level_page"

definition offline_web :: web where
  "offline_web url = Inl RequestException"

text \<open>The record extracted from \<open>legacy_page\<close> for the ID \<open>i\<close>.\<close>

definition legacy_record :: "int \<Rightarrow> pokemon" where
  "legacy_record i =
     \<lparr>name = ''Bulbasaur'', number = ''#'' @ zfill (str i) 3, classification = ''Seed'',
      height = [''2ft 04in'', ''0.7m''], weight = [''15.2lbs'', ''6.9kg''],
      hit_points = 45,
      abilities = [''Abilities: Overgrow'', ''Hidden Ability: Chlorophyll (Hidden)''],
      attack = 49, defense = 49, special = 65, speed = 45,
      level_up_moves = [''1: Tackle'', ''3: Growl''],
      tm_hm_moves = [''TM01: Take Down''], egg_moves = []\<rparr>"

text \<open>A web where the page of the ID 2 lacks the statistics cell.\<close>

definition mixed_web :: web where
  "mixed_web url = (if url = url_of 2 then Inr no_stats_page else Inr legacy_page)"

text \<open>The parsed command line.\<close>

definition run_args :: "bool \<Rightarrow> int \<Rightarrow> int \<Rightarrow> bool \<Rightarrow> args" where
  "run_args s f l v = \<lparr>args_save = s, args_first = f, args_last = l, args_verbose = v\<rparr>"

section \<open>Predicates used in the statements\<close>


text \<open>
  A row with at least two cells, and the entry \<open>"<level>: <move>"\<close> built from its cells 0
  and 1.
\<close>

definition has_two_cells :: "element \<Rightarrow> bool" where
  "has_two_cells row = (2 \<le> length (find_all row ''td'' [] None))"

definition level_move :: "element \<Rightarrow> string" where
  "level_move row =
     strip (get_text (snd (find_all row ''td'' [] None ! 0))) @ '': '' @
     strip (get_text (snd (find_all row ''td'' [] None ! 1)))"

text \<open>
  The entry an abilities cell contributes, and the entries of a table: those of all
  cells of its rows whose text contains \<open>Abilities\<close>, in document order.
\<close>

definition ability_entry :: "node \<Rightarrow> string" where
  "ability_entry cell =
     (if contains ''Hidden Ability'' (get_text cell)
      then strip (get_text cell) @ '' (Hidden)''
      else strip (get_text cell))"

definition row_entries :: "node \<Rightarrow> string list" where
  "row_entries row = map (\<lambda>cell. ability_entry (snd cell)) (find_all ([], row) ''td'' [] None)"

definition abilities_of_table :: "node \<Rightarrow> string list" where
  "abilities_of_table table =
     concat (map row_entries
               (filter (\<lambda>row. contains ''Abilities'' (get_text row))
                  (map snd (find_all ([], table) ''tr'' [] None))))"

text \<open>
  The records the loop of \<open>scrape_pokemon\<close> gets to extract from a list of IDs: those of
  the IDs before the first one whose extraction raises.  \<open>all_extracted\<close> holds when no
  extraction raises.
\<close>

fun extracted :: "web \<Rightarrow> int list \<Rightarrow> pokemon list" where
  "extracted web [] = []"
| "extracted web (i # ids) =
     (case fst (extract_statistics web i) of
        Inl e \<Rightarrow> []
      | Inr d \<Rightarrow> d # extracted web ids)"

definition all_extracted :: "web \<Rightarrow> int list \<Rightarrow> bool" where
  "all_extracted web ids = list_all (\<lambda>i. \<not> isl (fst (extract_statistics web i))) ids"

section \<open>Lemmas about the document and the searches\<close>

lemma and_then_Inl [simp]: "and_then (Inl e) f = Inl e"
  by (simp add: and_then_def)

lemma and_then_Inr [simp]: "and_then (Inr x) f = f x"
  by (simp add: and_then_def)

lemma and_then_eq_Inr: "and_then m f = Inr y \<longleftrightarrow> (\<exists>x. m = Inr x \<and> f x = Inr y)"
  by (cases m) simp_all

lemma descendants_nodes:
  "map snd (descendants p n) = map snd (descendants q n)"
  "map snd (descendants_from p i cs) = map snd (descendants_from q j cs)"
proof (induction p n and p i cs arbitrary: q and q j rule: descendants_descendants_from.induct)
  case (2 p n a cs)
  from "2.IH"[of q 0] show ?case by simp
next
  case (4 p i c cs)
  from "4.IH"(1)[of "q @ [j]"] "4.IH"(2)[of q "Suc j"] show ?case by simp
qed simp_all





lemma find_None_iff: "find el tg attrs txt = None \<longleftrightarrow> find_all el tg attrs txt = []"
  by (simp add: find_def split: list.splits)

section \<open>Which exceptions the extraction raises\<close>

lemma index_exc: "index xs i = Inl e \<Longrightarrow> e = IndexError"
  by (simp add: index_def split: if_splits)

lemma attr_of_exc: "attr_of x = Inl e \<Longrightarrow> e = AttributeError"
  by (simp add: attr_of_def split: option.splits)

lemma and_then_exc:
  assumes "and_then m f = Inl e"
    and "m = Inl e \<Longrightarrow> P"
    and "\<And>x. m = Inr x \<Longrightarrow> f x = Inl e \<Longrightarrow> P"
  shows P
  using assms by (cases m) simp_all

lemma base_stats_exc: "extract_base_stats soup d = Inl e \<Longrightarrow> e = AttributeError"
  unfolding extract_base_stats_def
  by (auto elim!: and_then_exc dest: attr_of_exc)

lemma level_up_exc: "extract_level_up_moves soup = Inl e \<Longrightarrow> e = AttributeError"
  unfolding extract_level_up_moves_def
  by (auto elim!: and_then_exc dest: attr_of_exc split: option.splits)

lemma tm_hm_exc: "extract_tm_hm_moves soup = Inl e \<Longrightarrow> e = AttributeError"
  unfolding extract_tm_hm_moves_def
  by (auto elim!: and_then_exc dest: attr_of_exc split: option.splits)

lemma find_egg_table_total: "\<exists>t. find_egg_table soup = Inr t"
  by (cases "find ([], soup) ''a'' [(''name'', ''eggmoves'')] None")
     (simp_all add: find_egg_table_def attr_of_def)

lemma egg_moves_total: "\<exists>ms. extract_egg_moves soup = Inr ms"
  using find_egg_table_total[of soup]
  by (auto simp: extract_egg_moves_def split: option.splits)

lemma height_weight_exc:
  "extract_height_weight soup cpi = Inl e \<Longrightarrow> e = IndexError \<or> e = AttributeError"
  unfolding extract_height_weight_def
  by (auto elim!: and_then_exc dest: index_exc attr_of_exc split: option.splits)

lemma try_block_exceptions:
  assumes "try_block soup = Inl e"
  shows "e = IndexError \<or> e = AttributeError"
proof -
  obtain ms where egg: "extract_egg_moves soup = Inr ms"
    using egg_moves_total by blast
  from assms show ?thesis
    unfolding try_block_def Let_def egg
    by (auto elim!: and_then_exc dest: index_exc height_weight_exc base_stats_exc level_up_exc tm_hm_exc)
qed


section \<open>Lemmas about the batch loop\<close>

lemma displayed_append [simp]: "displayed (xs @ ys) = displayed xs @ displayed ys"
  by (induction xs rule: displayed.induct) simp_all

lemma saved_append [simp]: "saved (xs @ ys) = saved xs @ saved ys"
  by (induction xs rule: saved.induct) simp_all

lemma fetched_append [simp]: "fetched (xs @ ys) = fetched xs @ fetched ys"
  by (induction xs rule: fetched.induct) simp_all

lemma extract_statistics_events:
  "snd (extract_statistics web i) = [Get (url_of i)] \<or>
   snd (extract_statistics web i) = [Get (url_of i), LogError (extraction_error_message (url_of i))]"
  by (simp add: extract_statistics_def Let_def split: sum.splits)

lemma extract_statistics_saved [simp]: "saved (snd (extract_statistics web i)) = []"
  using extract_statistics_events[of web i] by auto

lemma extract_statistics_displayed [simp]: "displayed (snd (extract_statistics web i)) = []"
  using extract_statistics_events[of web i] by auto

lemma extract_statistics_fetched [simp]: "fetched (snd (extract_statistics web i)) = [url_of i]"
  using extract_statistics_events[of web i] by auto

lemma is_Exception_extraction: "e = IndexError \<or> e = AttributeError \<Longrightarrow> is_Exception e"
  by auto



lemma scrape_loop_saved [simp]: "saved (snd (scrape_loop web a ids dl)) = []"
proof (induction ids arbitrary: dl)
  case (Cons i ids)
  have f: "saved (snd (extract_statistics web i)) = []" by simp
  show ?case
  proof (cases "extract_statistics web i")
    case (Pair r ev)
    with f have ev: "saved ev = []" by simp
    show ?thesis
    proof (cases r)
      case (Inl e)
      with Pair ev show ?thesis by simp
    next
      case (Inr d)
      obtain r' ev' where l: "scrape_loop web a ids (dl @ [d]) = (r', ev')"
        by (cases "scrape_loop web a ids (dl @ [d])")
      with Cons.IH[of "dl @ [d]"] have "saved ev' = []" by simp
      with Pair Inr ev l show ?thesis by (auto simp: Let_def)
    qed
  qed
qed simp



lemma scrape_loop_success:
  assumes "\<And>i. i \<in> set ids \<Longrightarrow> fst (extract_statistics web i) = Inr (r i)"
  shows "fst (scrape_loop web a ids dl) = Inr (dl @ map r ids) \<and>
         displayed (snd (scrape_loop web a ids dl)) =
           (if args_verbose a \<or> \<not> args_save a then map r ids else [])"
  using assms
proof (induction ids arbitrary: dl)
  case (Cons i ids)
  obtain ev where e: "extract_statistics web i = (Inr (r i), ev)"
    using Cons.prems[of i] by (cases "extract_statistics web i") simp
  then have ev: "displayed ev = []"
    using extract_statistics_displayed[of web i] by simp
  obtain r' ev' where l: "scrape_loop web a ids (dl @ [r i]) = (r', ev')"
    by (cases "scrape_loop web a ids (dl @ [r i])")
  from Cons.IH[of "dl @ [r i]"] Cons.prems l
  have "r' = Inr (dl @ [r i] @ map r ids)"
    and "displayed ev' = (if args_verbose a \<or> \<not> args_save a then map r ids else [])"
    by simp_all
  with e ev l show ?case by (simp add: Let_def)
qed simp

lemma scrape_loop_failure:
  assumes "i \<in> set ids" and "fst (extract_statistics web i) = Inl e"
  shows "\<exists>e'. fst (scrape_loop web a ids dl) = Inl e'"
  using assms
proof (induction ids arbitrary: dl)
  case (Cons j ids)
  show ?case
  proof (cases "extract_statistics web j")
    case (Pair r ev)
    show ?thesis
    proof (cases r)
      case (Inl e')
      with Pair show ?thesis by simp
    next
      case (Inr d)
      with Pair Cons.prems have "i \<in> set ids" by auto
      from Cons.IH[OF this Cons.prems(2), of "dl @ [d]"] obtain e' where
        "fst (scrape_loop web a ids (dl @ [d])) = Inl e'" by blast
      with Pair Inr show ?thesis
        by (auto simp: Let_def split: prod.splits)
    qed
  qed
qed simp

section \<open>The record and its ID\<close>

lemma assemble_poke_id:
  "assemble i f =
     (case assemble j f of Inl e \<Rightarrow> Inl e | Inr p \<Rightarrow> Inr (p\<lparr>number := ''#'' @ zfill (str i) 3\<rparr>))"
  by (simp add: assemble_def and_then_def split: sum.splits)

lemma assemble_number: "assemble i f = Inr p \<Longrightarrow> number p = ''#'' @ zfill (str i) 3"
  by (auto simp: assemble_def and_then_def split: sum.splits)

lemma extract_statistics_number:
  "fst (extract_statistics web i) = Inr p \<Longrightarrow> number p = ''#'' @ zfill (str i) 3"
  by (auto simp: extract_statistics_def Let_def assemble_number split: sum.splits if_splits)

lemma legacy_extract_0:
  "extract_statistics legacy_web 0 = (Inr (legacy_record 0), [Get (url_of 0)])"
  by code_simp

lemma legacy_extract:
  "extract_statistics legacy_web i = (Inr (legacy_record i), [Get (url_of i)])"
proof -
  from legacy_extract_0 obtain f where f: "try_block legacy_page = Inr f"
    and a: "assemble 0 f = Inr (legacy_record 0)"
    by (auto simp: extract_statistics_def Let_def legacy_web_def split: sum.splits if_splits)
  have "assemble i f = Inr (legacy_record i)"
    using a by (simp add: assemble_poke_id[of i f 0] legacy_record_def)
  with f show ?thesis
    by (simp add: extract_statistics_def Let_def legacy_web_def)
qed

section \<open>Text and string of a cell\<close>





section \<open>Input validation\<close>

text \<open>
  C3.  When both inputs are below 1026 and the last ID is below the first,
  \<open>validate_input\<close> returns the pair (first, first): the last ID is raised to the first.
  Nothing is logged and no exception is raised.  In particular \<open>validate_input(5, 2)\<close>
  returns (5, 5).
\<close>

theorem validate_input_coerces_last:
  assumes "first_id < 1026" and "last_id < 1026" and "last_id < first_id"
  shows "validate_input first_id last_id = (Inr (first_id, first_id), [])"
  using assms by (simp add: validate_input_def)

theorem validate_input_coerces_last_witness:
  "validate_input 5 2 = (Inr (5, 5), [])"
  using validate_input_coerces_last[of 5 2] by simp

section \<open>A page without the statistics cell\<close>




section \<open>Lemmas about a whole run\<close>

lemma scrape_loop_quiet:
  assumes "args_save a" and "\<not> args_verbose a"
  shows "displayed (snd (scrape_loop web a ids dl)) = []"
proof (induction ids arbitrary: dl)
  case (Cons i ids)
  have f: "displayed (snd (extract_statistics web i)) = []" by simp
  show ?case
  proof (cases "extract_statistics web i")
    case (Pair r ev)
    with f have ev: "displayed ev = []" by simp
    show ?thesis
    proof (cases r)
      case (Inl e)
      with Pair ev show ?thesis by simp
    next
      case (Inr d)
      obtain r' ev' where l: "scrape_loop web a ids (dl @ [d]) = (r', ev')"
        by (cases "scrape_loop web a ids (dl @ [d])")
      with Cons.IH[of "dl @ [d]"] have "displayed ev' = []" by simp
      with Pair Inr ev l assms show ?thesis by (simp add: Let_def)
    qed
  qed
qed simp

lemma scrape_loop_success_fetched:
  assumes "\<And>i. i \<in> set ids \<Longrightarrow> fst (extract_statistics web i) = Inr (r i)"
  shows "fetched (snd (scrape_loop web a ids dl)) = map url_of ids"
  using assms
proof (induction ids arbitrary: dl)
  case (Cons i ids)
  obtain ev where e: "extract_statistics web i = (Inr (r i), ev)"
    using Cons.prems[of i] by (cases "extract_statistics web i") simp
  then have ev: "fetched ev = [url_of i]"
    using extract_statistics_fetched[of web i] by simp
  obtain r' ev' where l: "scrape_loop web a ids (dl @ [r i]) = (r', ev')"
    by (cases "scrape_loop web a ids (dl @ [r i])")
  from Cons.IH[of "dl @ [r i]"] Cons.prems l
  have "fetched ev' = map url_of ids"
    by simp
  with e ev l show ?case by (simp add: Let_def)
qed simp

lemma scrape_pokemon_success:
  assumes "\<And>i. i \<in> {first_id..last_id} \<Longrightarrow> fst (extract_statistics web i) = Inr (r i)"
  shows "scrape_pokemon web first_id last_id a =
           (Inr (), snd (scrape_loop web a [first_id..last_id] []) @
              (if args_save a
               then [LogInfo (''Saving to '' @ OUTPUT_FILE),
                     SaveToJson OUTPUT_FILE (map r [first_id..last_id])]
               else [LogInfo (''All Pok'' @ [CHR 0xE9] @
                              ''mon retrieved! To save to JSON, use the --save flag'')]))"
proof -
  have "fst (scrape_loop web a [first_id..last_id] []) = Inr (map r [first_id..last_id])"
    using scrape_loop_success[of "[first_id..last_id]" web r a "[]"] assms by simp
  then obtain ev where "scrape_loop web a [first_id..last_id] [] = (Inr (map r [first_id..last_id]), ev)"
    by (cases "scrape_loop web a [first_id..last_id] []") simp
  then show ?thesis
    by (simp add: scrape_pokemon_def)
qed

lemma scrape_pokemon_failure:
  assumes "i \<in> {first_id..last_id}" and "fst (extract_statistics web i) = Inl e"
  shows "\<exists>e'. scrape_pokemon web first_id last_id a =
            (Inl e', snd (scrape_loop web a [first_id..last_id] []))"
proof -
  from scrape_loop_failure[of i "[first_id..last_id]" web e a "[]"] assms
  obtain e' where "fst (scrape_loop web a [first_id..last_id] []) = Inl e'"
    by auto
  then obtain ev where "scrape_loop web a [first_id..last_id] [] = (Inl e', ev)"
    by (cases "scrape_loop web a [first_id..last_id] []") simp
  then show ?thesis
    by (simp add: scrape_pokemon_def)
qed

lemma not_isl_projr: "\<not> isl x \<Longrightarrow> x = Inr (projr x)"
  by (cases x) simp_all

lemma isl_ex: "isl x \<Longrightarrow> \<exists>e. x = Inl e"
  by (cases x) simp_all

lemma scrape_pokemon_cases:
  "scrape_pokemon web first_id last_id a = (r, ev) \<Longrightarrow>
     (isl r \<and> ev = snd (scrape_loop web a [first_id..last_id] [])) \<or>
     (r = Inr () \<and> args_save a \<and>
        (\<exists>data_list. ev = snd (scrape_loop web a [first_id..last_id] []) @
           [LogInfo (''Saving to '' @ OUTPUT_FILE), SaveToJson OUTPUT_FILE data_list])) \<or>
     (r = Inr () \<and> \<not> args_save a \<and>
        (\<exists>msg. ev = snd (scrape_loop web a [first_id..last_id] []) @ [LogInfo msg]))"
  by (cases "scrape_loop web a [first_id..last_id] []")
     (auto simp: scrape_pokemon_def split: sum.splits if_splits)

section \<open>What a successful extraction returns\<close>

lemma try_block_Inr:
  assumes "try_block soup = Inr f"
  shows "\<exists>div1. index (find_all ([], soup) ''div'' [(''align'', ''center'')] None) 1 = Inr div1 \<and>
           f_center_panel_info f = find_all div1 ''td'' [(''class'', ''fooinfo'')] None \<and>
           extract_height_weight soup (f_center_panel_info f) = Inr (f_height f, f_weight f) \<and>
           extract_base_stats soup div1 = Inr (f_base_stats_td f) \<and>
           extract_level_up_moves soup = Inr (f_level_up_moves f) \<and>
           extract_tm_hm_moves soup = Inr (f_tm_hm_moves f) \<and>
           extract_egg_moves soup = Inr (f_egg_moves f) \<and>
           f_abilities f = extract_abilities soup"
  using assms unfolding try_block_def Let_def
  by (auto simp: and_then_eq_Inr split: prod.splits)

lemma assemble_Inr:
  assumes "assemble k f = Inr p"
  shows "height p = f_height f \<and> weight p = f_weight f \<and> abilities p = f_abilities f \<and>
         level_up_moves p = f_level_up_moves f \<and> tm_hm_moves p = f_tm_hm_moves f \<and>
         egg_moves p = f_egg_moves f"
  using assms unfolding assemble_def
  by (auto simp: and_then_eq_Inr)

lemma extract_statistics_Inr:
  assumes "web (url_of k) = Inr soup" and "fst (extract_statistics web k) = Inr p"
  shows "\<exists>f. try_block soup = Inr f \<and> assemble k f = Inr p"
  using assms by (auto simp: extract_statistics_def Let_def split: sum.splits if_splits)

lemma extract_statistics_parts:
  assumes "web (url_of k) = Inr soup" and "fst (extract_statistics web k) = Inr p"
  shows "\<exists>div1. index (find_all ([], soup) ''div'' [(''align'', ''center'')] None) 1 = Inr div1 \<and>
           extract_height_weight soup (find_all div1 ''td'' [(''class'', ''fooinfo'')] None) =
             Inr (height p, weight p) \<and>
           extract_level_up_moves soup = Inr (level_up_moves p) \<and>
           extract_tm_hm_moves soup = Inr (tm_hm_moves p) \<and>
           extract_egg_moves soup = Inr (egg_moves p) \<and>
           abilities p = extract_abilities soup"
proof -
  from extract_statistics_Inr[OF assms] obtain f where
    f: "try_block soup = Inr f" and a: "assemble k f = Inr p" by blast
  from try_block_Inr[OF f] assemble_Inr[OF a] show ?thesis
    by auto
qed

lemma height_weight_standard:
  assumes "index cpi 6 = Inr cell6"
    and "find cell6 ''td'' [] (Some is_Standard) = Some standard6"
    and "extract_height_weight soup cpi = Inr (h, w)"
  shows "\<exists>next6. find_next soup standard6 ''td'' = Some next6 \<and>
           h = split (replace (get_text (snd next6)) [CHR 0x22] [CHR 0x22, CHR '' '']) '' ''"
proof (cases "index cpi 7")
  case (Inl e)
  with assms show ?thesis by (simp add: extract_height_weight_def)
next
  case cell7: (Inr cell7)
  show ?thesis
  proof (cases "find_next soup standard6 ''td''")
    case None
    with assms cell7 show ?thesis by (simp add: extract_height_weight_def attr_of_def)
  next
    case next6: (Some next6)
    show ?thesis
    proof (cases "find cell7 ''td'' [] (Some is_Standard)")
      case None
      with assms cell7 next6 show ?thesis by (simp add: extract_height_weight_def attr_of_def)
    next
      case standard7: (Some standard7)
      show ?thesis
      proof (cases "find_next soup standard7 ''td''")
        case None
        with assms cell7 next6 standard7 show ?thesis
          by (simp add: extract_height_weight_def attr_of_def)
      next
        case (Some next7)
        with assms cell7 next6 standard7 show ?thesis
          by (simp add: extract_height_weight_def attr_of_def)
      qed
    qed
  qed
qed

lemma level_up_rows_closed:
  "level_up_rows rows acc = acc @ map level_move (filter has_two_cells rows)"
  by (induction rows arbitrary: acc) (simp_all add: Let_def level_move_def has_two_cells_def)

section \<open>The batch\<close>

text \<open>
  C2.  Let the range satisfy \<open>first_id \<le> last_id < 1026\<close> and let the extraction succeed
  for every ID of the range, with record \<open>r i\<close> for the ID \<open>i\<close>.  Then the run ends
  normally, fetches the pages of the IDs in ascending order, and its list of records is
  \<open>r first_id, ..., r last_id\<close>: exactly \<open>last_id - first_id + 1\<close> records, the record at
  each position carrying the number of its ID.  That list is what is saved (with the save
  flag) and what is shown (with the verbose flag, or without the save flag).
\<close>

theorem batch_one_record_per_id:
  assumes "first_id \<le> last_id" and "last_id < 1026"
    and "args_first a = first_id" and "args_last a = last_id"
    and "\<forall>i\<in>{first_id..last_id}. fst (extract_statistics web i) = Inr (r i)"
  shows "fst (main web a) = Inr () \<and>
         fetched (snd (main web a)) = map url_of [first_id..last_id] \<and>
         fst (scrape_loop web a [first_id..last_id] []) = Inr (map r [first_id..last_id]) \<and>
         length (map r [first_id..last_id]) = nat (last_id - first_id + 1) \<and>
         map number (map r [first_id..last_id]) =
           map (\<lambda>i. ''#'' @ zfill (str i) 3) [first_id..last_id] \<and>
         saved (snd (main web a)) = (if args_save a then [map r [first_id..last_id]] else []) \<and>
         displayed (snd (main web a)) =
           (if args_verbose a \<or> \<not> args_save a then map r [first_id..last_id] else [])"
proof -
  have ok: "\<And>i. i \<in> set [first_id..last_id] \<Longrightarrow> fst (extract_statistics web i) = Inr (r i)"
    using assms(5) by simp
  have v: "validate_input (args_first a) (args_last a) = (Inr (first_id, last_id), [])"
    using assms(1-4) by (simp add: validate_input_def)
  have run: "scrape_pokemon web first_id last_id a =
           (Inr (), snd (scrape_loop web a [first_id..last_id] []) @
              (if args_save a
               then [LogInfo (''Saving to '' @ OUTPUT_FILE),
                     SaveToJson OUTPUT_FILE (map r [first_id..last_id])]
               else [LogInfo (''All Pok'' @ [CHR 0xE9] @
                              ''mon retrieved! To save to JSON, use the --save flag'')]))"
    using assms(5) by (intro scrape_pokemon_success) simp
  have m: "main web a =
      (Inr (), LogInfo ''Extracting data from Serebii.net'' # snd (scrape_pokemon web first_id last_id a))"
    unfolding main_def v by (simp add: run handler_def)
  have 1: "fst (main web a) = Inr ()"
    by (simp add: m)
  have 2: "fetched (snd (main web a)) = map url_of [first_id..last_id]"
    unfolding m run using scrape_loop_success_fetched[of "[first_id..last_id]" web r a "[]"] ok
    by simp
  have 3: "fst (scrape_loop web a [first_id..last_id] []) = Inr (map r [first_id..last_id])"
    using scrape_loop_success[of "[first_id..last_id]" web r a "[]"] ok by simp
  have 4: "length (map r [first_id..last_id]) = nat (last_id - first_id + 1)"
    by simp
  have 5: "map number (map r [first_id..last_id]) =
           map (\<lambda>i. ''#'' @ zfill (str i) 3) [first_id..last_id]"
    using ok extract_statistics_number[of web] by simp
  have 6: "saved (snd (main web a)) = (if args_save a then [map r [first_id..last_id]] else [])"
    unfolding m run by simp
  have 7: "displayed (snd (main web a)) =
           (if args_verbose a \<or> \<not> args_save a then map r [first_id..last_id] else [])"
    unfolding m run using scrape_loop_success[of "[first_id..last_id]" web r a "[]"] ok
    by simp
  from 1 2 3 4 5 6 7 show ?thesis by blast
qed

theorem batch_one_record_per_id_witness:
  "saved (snd (main legacy_web (run_args True 7 9 False))) =
     [[legacy_record 7, legacy_record 8, legacy_record 9]] \<and>
   map number [legacy_record 7, legacy_record 8, legacy_record 9] = [''#007'', ''#008'', ''#009''] \<and>
   displayed (snd (main legacy_web (run_args True 7 9 False))) = []"
proof -
  have h: "\<forall>i\<in>{7..9}. fst (extract_statistics legacy_web i) = Inr (legacy_record i)"
    by (simp add: legacy_extract)
  have u: "[7..9] = [7, 8, 9::int]"
    by code_simp
  have n: "map number [legacy_record 7, legacy_record 8, legacy_record 9] = [''#007'', ''#008'', ''#009'']"
    by code_simp
  from batch_one_record_per_id[of 7 9 "run_args True 7 9 False" legacy_web legacy_record] h
  have s: "saved (snd (main legacy_web (run_args True 7 9 False))) = [map legacy_record [7..9]]"
    and d: "displayed (snd (main legacy_web (run_args True 7 9 False))) = []"
    by (simp_all add: run_args_def)
  from s have "saved (snd (main legacy_web (run_args True 7 9 False))) =
     [[legacy_record 7, legacy_record 8, legacy_record 9]]"
    unfolding u by simp
  with d n show ?thesis by blast
qed

text \<open>
  C9.  In a run with the save flag: when the extraction succeeds for every ID of the
  range, the file is written once, as the last event, after the pages of all IDs have
  been fetched; when the extraction fails for some ID, the run raises and the file is
  never written.  The loop itself never writes the file.
\<close>

theorem json_written_only_after_all_extracted:
  assumes "args_save a"
  shows "((\<forall>i\<in>{first_id..last_id}. \<not> isl (fst (extract_statistics web i))) \<longrightarrow>
            snd (scrape_pokemon web first_id last_id a) =
              snd (scrape_loop web a [first_id..last_id] []) @
              [LogInfo (''Saving to '' @ OUTPUT_FILE),
               SaveToJson OUTPUT_FILE
                 (map (\<lambda>i. projr (fst (extract_statistics web i))) [first_id..last_id])] \<and>
            fetched (snd (scrape_loop web a [first_id..last_id] [])) = map url_of [first_id..last_id]) \<and>
         ((\<exists>i\<in>{first_id..last_id}. isl (fst (extract_statistics web i))) \<longrightarrow>
            isl (fst (scrape_pokemon web first_id last_id a)) \<and>
            saved (snd (scrape_pokemon web first_id last_id a)) = []) \<and>
         saved (snd (scrape_loop web a [first_id..last_id] [])) = []"
proof (intro conjI impI)
  assume ok: "\<forall>i\<in>{first_id..last_id}. \<not> isl (fst (extract_statistics web i))"
  let ?r = "\<lambda>i. projr (fst (extract_statistics web i))"
  have r: "\<And>i. i \<in> {first_id..last_id} \<Longrightarrow> fst (extract_statistics web i) = Inr (?r i)"
    using ok not_isl_projr by blast
  from scrape_pokemon_success[of first_id last_id web ?r a] r assms
  show "snd (scrape_pokemon web first_id last_id a) =
              snd (scrape_loop web a [first_id..last_id] []) @
              [LogInfo (''Saving to '' @ OUTPUT_FILE),
               SaveToJson OUTPUT_FILE (map ?r [first_id..last_id])]"
    by simp
  from scrape_loop_success_fetched[of "[first_id..last_id]" web ?r a "[]"] r
  show "fetched (snd (scrape_loop web a [first_id..last_id] [])) = map url_of [first_id..last_id]"
    by simp
next
  assume "\<exists>i\<in>{first_id..last_id}. isl (fst (extract_statistics web i))"
  then obtain i e where i: "i \<in> {first_id..last_id}" and e: "fst (extract_statistics web i) = Inl e"
    using isl_ex by blast
  from scrape_pokemon_failure[OF i e, of a] obtain e' where
    f: "scrape_pokemon web first_id last_id a = (Inl e', snd (scrape_loop web a [first_id..last_id] []))"
    by blast
  show "isl (fst (scrape_pokemon web first_id last_id a))"
    by (simp add: f)
  show "saved (snd (scrape_pokemon web first_id last_id a)) = []"
    by (simp add: f)
next
  show "saved (snd (scrape_loop web a [first_id..last_id] [])) = []"
    by simp
qed

theorem json_written_only_after_all_extracted_witness:
  "saved (snd (scrape_pokemon mixed_web 1 3 (run_args True 1 3 True))) = [] \<and>
   snd (scrape_pokemon legacy_web 1 2 (run_args True 1 2 False)) =
     [Get (url_of 1), LogInfo ''Scraped #001 Bulbasaur'',
      Get (url_of 2), LogInfo ''Scraped #002 Bulbasaur'',
      LogInfo ''Saving to pokemon.json'',
      SaveToJson ''pokemon.json'' [legacy_record 1, legacy_record 2]]"
proof -
  have s1: "args_save (run_args True 1 3 True)" and s2: "args_save (run_args True 1 2 False)"
    by (simp_all add: run_args_def)
  have bad: "\<exists>i\<in>{1..3}. isl (fst (extract_statistics mixed_web i))"
  proof
    show "isl (fst (extract_statistics mixed_web 2))" by code_simp
    show "(2::int) \<in> {1..3}" by simp
  qed
  have good: "\<forall>i\<in>{1..2}. \<not> isl (fst (extract_statistics legacy_web i))"
    by (simp add: legacy_extract)
  have l: "snd (scrape_loop legacy_web (run_args True 1 2 False) [1..2] []) =
     [Get (url_of 1), LogInfo ''Scraped #001 Bulbasaur'',
      Get (url_of 2), LogInfo ''Scraped #002 Bulbasaur'']"
    by code_simp
  have u: "[1..2] = [1, 2::int]"
    by code_simp
  from json_written_only_after_all_extracted[OF s1, of 1 3 mixed_web] bad
  have a: "saved (snd (scrape_pokemon mixed_web 1 3 (run_args True 1 3 True))) = []"
    by blast
  from json_written_only_after_all_extracted[OF s2, of 1 2 legacy_web] good
  have "snd (scrape_pokemon legacy_web 1 2 (run_args True 1 2 False)) =
      snd (scrape_loop legacy_web (run_args True 1 2 False) [1..2] []) @
              [LogInfo (''Saving to '' @ OUTPUT_FILE),
               SaveToJson OUTPUT_FILE
                 (map (\<lambda>i. projr (fst (extract_statistics legacy_web i))) [1..2])]"
    by blast
  moreover have "map (\<lambda>i. projr (fst (extract_statistics legacy_web i))) [1..2] =
      [legacy_record 1, legacy_record 2]"
    unfolding u by (simp add: legacy_extract)
  ultimately have b: "snd (scrape_pokemon legacy_web 1 2 (run_args True 1 2 False)) =
     [Get (url_of 1), LogInfo ''Scraped #001 Bulbasaur'',
      Get (url_of 2), LogInfo ''Scraped #002 Bulbasaur'',
      LogInfo ''Saving to pokemon.json'',
      SaveToJson ''pokemon.json'' [legacy_record 1, legacy_record 2]]"
    by (simp only: l OUTPUT_FILE_def append.simps)
  from a b show ?thesis by blast
qed

section \<open>The records a run extracts\<close>

lemma scrape_loop_extracted:
  "displayed (snd (scrape_loop web a ids dl)) =
     (if args_verbose a \<or> \<not> args_save a then extracted web ids else []) \<and>
   (all_extracted web ids \<longrightarrow> fst (scrape_loop web a ids dl) = Inr (dl @ extracted web ids)) \<and>
   (\<not> all_extracted web ids \<longrightarrow> isl (fst (scrape_loop web a ids dl)))"
proof (induction ids arbitrary: dl)
  case Nil
  show ?case by (simp add: all_extracted_def)
next
  case (Cons i ids)
  have f: "displayed (snd (extract_statistics web i)) = []" by simp
  show ?case
  proof (cases "extract_statistics web i")
    case (Pair r ev)
    with f have ev: "displayed ev = []" by simp
    show ?thesis
    proof (cases r)
      case (Inl e)
      with Pair ev show ?thesis by (simp add: all_extracted_def)
    next
      case (Inr d)
      obtain r' ev' where l: "scrape_loop web a ids (dl @ [d]) = (r', ev')"
        by (cases "scrape_loop web a ids (dl @ [d])")
      from Cons.IH[of "dl @ [d]"] l
      have 1: "displayed ev' = (if args_verbose a \<or> \<not> args_save a then extracted web ids else [])"
        and 2: "all_extracted web ids \<Longrightarrow> r' = Inr (dl @ [d] @ extracted web ids)"
        and 3: "\<not> all_extracted web ids \<Longrightarrow> isl r'"
        by simp_all
      have ae: "all_extracted web (i # ids) = all_extracted web ids"
        using Pair Inr by (simp add: all_extracted_def)
      from Pair Inr ev l 1 2 3 show ?thesis
        unfolding ae by (simp add: Let_def)
    qed
  qed
qed

lemma extracted_all:
  "all_extracted web ids \<Longrightarrow>
     extracted web ids = map (\<lambda>i. projr (fst (extract_statistics web i))) ids"
  by (induction ids) (auto simp: all_extracted_def split: sum.splits)

lemma scrape_pokemon_outputs:
  "displayed (snd (scrape_pokemon web first_id last_id a)) =
     (if args_verbose a \<or> \<not> args_save a then extracted web [first_id..last_id] else []) \<and>
   saved (snd (scrape_pokemon web first_id last_id a)) =
     (if args_save a \<and> all_extracted web [first_id..last_id]
      then [extracted web [first_id..last_id]] else [])"
proof -
  obtain r ev where l: "scrape_loop web a [first_id..last_id] [] = (r, ev)"
    by (cases "scrape_loop web a [first_id..last_id] []")
  from scrape_loop_extracted[of web a "[first_id..last_id]" "[]"] l
  have d: "displayed ev =
      (if args_verbose a \<or> \<not> args_save a then extracted web [first_id..last_id] else [])"
    and ok: "all_extracted web [first_id..last_id] \<Longrightarrow> r = Inr (extracted web [first_id..last_id])"
    and bad: "\<not> all_extracted web [first_id..last_id] \<Longrightarrow> isl r"
    by simp_all
  have s: "saved ev = []"
    using scrape_loop_saved[of web a "[first_id..last_id]" "[]"] l by simp
  show ?thesis
  proof (cases "all_extracted web [first_id..last_id]")
    case True
    with ok l d s show ?thesis
      by (simp add: scrape_pokemon_def)
  next
    case False
    with bad obtain e where "r = Inl e" using isl_ex by blast
    with False l d s show ?thesis
      by (simp add: scrape_pokemon_def)
  qed
qed

section \<open>The two outputs\<close>

text \<open>
  C6.  The claim that at most one of the two outputs takes effect in a run fails: with
  both flags set, the record of the ID 1 is shown and the file is written.
\<close>

theorem both_output_paths_counterexample:
  "\<not> (displayed (snd (scrape_pokemon legacy_web 1 1 (run_args True 1 1 True))) = [] \<or>
       saved (snd (scrape_pokemon legacy_web 1 1 (run_args True 1 1 True))) = [])"
  by code_simp

text \<open>
  C6, as amended.  The records shown on the console are all the records extracted (those
  of the IDs before the first failure) when the verbose flag is set or the save flag is
  not, and none otherwise.  The file is written, with the list of all records, exactly
  when the save flag is set and every extraction succeeds.  So without the save flag only
  the console output takes effect, with the save flag alone only the file, and with both
  flags both do.  When every extraction succeeds the records extracted are those of all
  IDs of the range, and as soon as the first ID succeeds there is a record to show.
\<close>

theorem output_paths_by_flags:
  "displayed (snd (scrape_pokemon web first_id last_id a)) =
     (if args_verbose a \<or> \<not> args_save a then extracted web [first_id..last_id] else []) \<and>
   saved (snd (scrape_pokemon web first_id last_id a)) =
     (if args_save a \<and> all_extracted web [first_id..last_id]
      then [extracted web [first_id..last_id]] else []) \<and>
   (all_extracted web [first_id..last_id] \<longrightarrow>
      extracted web [first_id..last_id] =
        map (\<lambda>i. projr (fst (extract_statistics web i))) [first_id..last_id] \<and>
      length (extracted web [first_id..last_id]) = nat (last_id - first_id + 1)) \<and>
   (first_id \<le> last_id \<and> \<not> isl (fst (extract_statistics web first_id)) \<longrightarrow>
      extracted web [first_id..last_id] \<noteq> [])"
proof (intro conjI impI)
  show "displayed (snd (scrape_pokemon web first_id last_id a)) =
     (if args_verbose a \<or> \<not> args_save a then extracted web [first_id..last_id] else [])"
    using scrape_pokemon_outputs[of web first_id last_id a] by blast
  show "saved (snd (scrape_pokemon web first_id last_id a)) =
     (if args_save a \<and> all_extracted web [first_id..last_id]
      then [extracted web [first_id..last_id]] else [])"
    using scrape_pokemon_outputs[of web first_id last_id a] by blast
next
  assume all: "all_extracted web [first_id..last_id]"
  then show m: "extracted web [first_id..last_id] =
        map (\<lambda>i. projr (fst (extract_statistics web i))) [first_id..last_id]"
    by (rule extracted_all)
  show "length (extracted web [first_id..last_id]) = nat (last_id - first_id + 1)"
    unfolding m by simp
next
  assume h: "first_id \<le> last_id \<and> \<not> isl (fst (extract_statistics web first_id))"
  then have "[first_id..last_id] = first_id # [first_id + 1..last_id]"
    by (simp add: upto_rec1)
  with h show "extracted web [first_id..last_id] \<noteq> []"
    by (auto split: sum.splits)
qed

theorem output_paths_by_flags_witness:
  "displayed (snd (scrape_pokemon legacy_web 1 1 (run_args False 1 1 False))) = [legacy_record 1] \<and>
   saved (snd (scrape_pokemon legacy_web 1 1 (run_args False 1 1 False))) = [] \<and>
   displayed (snd (scrape_pokemon legacy_web 1 1 (run_args True 1 1 False))) = [] \<and>
   saved (snd (scrape_pokemon legacy_web 1 1 (run_args True 1 1 False))) = [[legacy_record 1]] \<and>
   displayed (snd (scrape_pokemon legacy_web 1 1 (run_args True 1 1 True))) = [legacy_record 1] \<and>
   saved (snd (scrape_pokemon legacy_web 1 1 (run_args True 1 1 True))) = [[legacy_record 1]] \<and>
   displayed (snd (scrape_pokemon mixed_web 1 3 (run_args True 1 3 True))) = [legacy_record 1] \<and>
   saved (snd (scrape_pokemon mixed_web 1 3 (run_args True 1 3 True))) = []"
proof -
  have u: "[1..1] = [1::int]" and u3: "[1..3] = [1, 2, 3::int]"
    by code_simp+
  have m1: "fst (extract_statistics mixed_web 1) = Inr (legacy_record 1)"
    by code_simp
  have m2: "fst (extract_statistics mixed_web 2) = Inl AttributeError"
    by code_simp
  from output_paths_by_flags[of legacy_web 1 1 "run_args False 1 1 False"]
  have a: "displayed (snd (scrape_pokemon legacy_web 1 1 (run_args False 1 1 False))) = [legacy_record 1] \<and>
   saved (snd (scrape_pokemon legacy_web 1 1 (run_args False 1 1 False))) = []"
    unfolding u by (simp add: run_args_def legacy_extract all_extracted_def)
  from output_paths_by_flags[of legacy_web 1 1 "run_args True 1 1 False"]
  have b: "displayed (snd (scrape_pokemon legacy_web 1 1 (run_args True 1 1 False))) = [] \<and>
   saved (snd (scrape_pokemon legacy_web 1 1 (run_args True 1 1 False))) = [[legacy_record 1]]"
    unfolding u by (simp add: run_args_def legacy_extract all_extracted_def)
  from output_paths_by_flags[of legacy_web 1 1 "run_args True 1 1 True"]
  have c: "displayed (snd (scrape_pokemon legacy_web 1 1 (run_args True 1 1 True))) = [legacy_record 1] \<and>
   saved (snd (scrape_pokemon legacy_web 1 1 (run_args True 1 1 True))) = [[legacy_record 1]]"
    unfolding u by (simp add: run_args_def legacy_extract all_extracted_def)
  from output_paths_by_flags[of mixed_web 1 3 "run_args True 1 3 True"]
  have d: "displayed (snd (scrape_pokemon mixed_web 1 3 (run_args True 1 3 True))) = [legacy_record 1] \<and>
   saved (snd (scrape_pokemon mixed_web 1 3 (run_args True 1 3 True))) = []"
    unfolding u3 by (simp add: run_args_def m1 m2 all_extracted_def)
  from a b c d show ?thesis by blast
qed

section \<open>An ID outside the supported range\<close>

text \<open>
  C4.  The claim that the exit is non-zero fails: for the inputs 1026 and 1 the process
  ends with \<open>SystemExit\<close> without a code, which is the exit status 0.
\<close>

theorem invalid_range_exit_status_counterexample:
  "\<not> (exit_status (fst (main offline_web (run_args False 1026 1 False))) \<noteq> 0)"
  by code_simp

text \<open>
  C4, as amended.  When the first or the last ID is at least 1026, \<open>validate_input\<close> logs
  the error message and raises \<open>SystemExit\<close>; the run ends there, before anything is
  fetched, shown or saved, and the exit status is 0.
\<close>

theorem invalid_range_exits_before_fetch:
  assumes "1026 \<le> args_first a \<or> 1026 \<le> args_last a"
  shows "validate_input (args_first a) (args_last a) =
           (Inl SystemExit,
            [LogError (''Error: This Pok'' @ [CHR 0xE9] @ ''mon is not yet supported!'')]) \<and>
         main web a =
           (Inl SystemExit,
            [LogInfo ''Extracting data from Serebii.net'',
             LogError (''Error: This Pok'' @ [CHR 0xE9] @ ''mon is not yet supported!'')]) \<and>
         fetched (snd (main web a)) = [] \<and>
         displayed (snd (main web a)) = [] \<and>
         saved (snd (main web a)) = [] \<and>
         exit_status (fst (main web a)) = 0"
proof -
  have v: "validate_input (args_first a) (args_last a) =
           (Inl SystemExit,
            [LogError (''Error: This Pok'' @ [CHR 0xE9] @ ''mon is not yet supported!'')])"
    using assms by (auto simp: validate_input_def)
  have m: "main web a =
           (Inl SystemExit,
            [LogInfo ''Extracting data from Serebii.net'',
             LogError (''Error: This Pok'' @ [CHR 0xE9] @ ''mon is not yet supported!'')])"
    unfolding main_def v by (simp add: handler_def)
  show ?thesis
    unfolding m using v by simp
qed

theorem invalid_range_exits_before_fetch_witness:
  "validate_input 1026 1 =
     (Inl SystemExit, [LogError (''Error: This Pok'' @ [CHR 0xE9] @ ''mon is not yet supported!'')]) \<and>
   fetched (snd (main legacy_web (run_args True 1026 1 True))) = [] \<and>
   exit_status (fst (main legacy_web (run_args True 1026 1 True))) = 0"
  using invalid_range_exits_before_fetch[of "run_args True 1026 1 True" legacy_web]
  by (simp add: run_args_def)

section \<open>Egg moves\<close>

text \<open>
  C5.  When the document has no anchor named \<open>eggmoves\<close>, the egg-moves extractor returns
  the empty list without raising, and the \<open>egg_moves\<close> field of every record extracted
  from the document is empty.
\<close>

theorem egg_moves_empty_without_anchor:
  assumes "find_all ([], soup) ''a'' [(''name'', ''eggmoves'')] None = []"
  shows "extract_egg_moves soup = Inr [] \<and>
         (web (url_of k) = Inr soup \<and> fst (extract_statistics web k) = Inr p \<longrightarrow> egg_moves p = [])"
proof -
  from assms have "find ([], soup) ''a'' [(''name'', ''eggmoves'')] None = None"
    by (simp add: find_None_iff)
  then have t: "find_egg_table soup = Inr None"
    by (simp add: find_egg_table_def attr_of_def)
  then have e: "extract_egg_moves soup = Inr []"
    by (simp add: extract_egg_moves_def)
  with extract_statistics_parts[of web k soup p] show ?thesis
    by auto
qed

theorem egg_moves_empty_without_anchor_witness:
  "extract_egg_moves legacy_page = Inr [] \<and> egg_moves (legacy_record 1) = []"
proof -
  have a: "find_all ([], legacy_page) ''a'' [(''name'', ''eggmoves'')] None = []"
    by code_simp
  have w: "legacy_web (url_of 1) = Inr legacy_page"
    by (simp add: legacy_web_def)
  have x: "fst (extract_statistics legacy_web 1) = Inr (legacy_record 1)"
    by (simp add: legacy_extract)
  from egg_moves_empty_without_anchor[OF a, of legacy_web 1 "legacy_record 1"] w x
  show ?thesis by blast
qed

section \<open>Height of the Standard/Metric variant\<close>

text \<open>
  C7.  The claim that the tokens come from inserting a space before the quote character
  fails: on the page whose height after the \<open>Standard\<close> label reads 6'2", the height of
  the record is not the split of the text with a space inserted before the quote.
\<close>

theorem space_before_quote_counterexample:
  "map_sum id height (fst (extract_statistics standard_web 1)) \<noteq>
     Inr (split (replace [CHR ''6'', CHR 0x27, CHR ''2'', CHR 0x22] [CHR 0x22] [CHR '' '', CHR 0x22]) '' '')"
  by code_simp

text \<open>
  C7, as amended.  When the height cell (cell 6 of the info cells of the second centred
  div) contains a \<open>td\<close> whose string is \<open>Standard\<close>, the height of every record extracted
  from the document is the text of the \<open>td\<close> following that label, with a space inserted
  after every quote character, split on single spaces; it is not the split on the legacy
  delimiter.
\<close>

theorem standard_height_tokens:
  assumes "web (url_of k) = Inr soup" and "fst (extract_statistics web k) = Inr p"
    and "index (find_all ([], soup) ''div'' [(''align'', ''center'')] None) 1 = Inr div1"
    and "index (find_all div1 ''td'' [(''class'', ''fooinfo'')] None) 6 = Inr cell6"
    and "find cell6 ''td'' [] (Some is_Standard) = Some standard6"
  shows "\<exists>next6. find_next soup standard6 ''td'' = Some next6 \<and>
           height p =
             split (replace (get_text (snd next6)) [CHR 0x22] [CHR 0x22, CHR '' '']) '' ''"
proof -
  from extract_statistics_parts[OF assms(1,2)] assms(3)
  have "extract_height_weight soup (find_all div1 ''td'' [(''class'', ''fooinfo'')] None) =
          Inr (height p, weight p)"
    by auto
  with assms(4,5) show ?thesis
    by (rule height_weight_standard)
qed

theorem standard_height_tokens_witness:
  "map_sum id height (fst (extract_statistics standard_web 1)) =
     Inr (split (replace [CHR ''6'', CHR 0x27, CHR ''2'', CHR 0x22] [CHR 0x22] [CHR 0x22, CHR '' '']) '' '') \<and>
   split (replace [CHR ''6'', CHR 0x27, CHR ''2'', CHR 0x22] [CHR 0x22] [CHR 0x22, CHR '' '']) '' '' =
     [[CHR ''6'', CHR 0x27, CHR ''2'', CHR 0x22], []]"
proof -
  define div1 where "div1 = find_all ([], standard_page) ''div'' [(''align'', ''center'')] None ! 1"
  define cell6 where "cell6 = find_all div1 ''td'' [(''class'', ''fooinfo'')] None ! 6"
  define standard6 where "standard6 = the (find cell6 ''td'' [] (Some is_Standard))"
  define p where "p = projr (fst (extract_statistics standard_web 1))"
  have w: "standard_web (url_of 1) = Inr standard_page"
    by (simp add: standard_web_def)
  have x: "fst (extract_statistics standard_web 1) = Inr p"
    unfolding p_def by code_simp
  have d: "index (find_all ([], standard_page) ''div'' [(''align'', ''center'')] None) 1 = Inr div1"
    unfolding div1_def by code_simp
  have c: "index (find_all div1 ''td'' [(''class'', ''fooinfo'')] None) 6 = Inr cell6"
    unfolding cell6_def div1_def by code_simp
  have s: "find cell6 ''td'' [] (Some is_Standard) = Some standard6"
    unfolding standard6_def cell6_def div1_def by code_simp
  have n: "map_option (\<lambda>el. get_text (snd el)) (find_next standard_page standard6 ''td'') =
             Some [CHR ''6'', CHR 0x27, CHR ''2'', CHR 0x22]"
    unfolding standard6_def cell6_def div1_def by code_simp
  from standard_height_tokens[OF w x d c s] n
  have "height p =
      split (replace [CHR ''6'', CHR 0x27, CHR ''2'', CHR 0x22] [CHR 0x22] [CHR 0x22, CHR '' '']) '' ''"
    by auto
  moreover have "split (replace [CHR ''6'', CHR 0x27, CHR ''2'', CHR 0x22] [CHR 0x22] [CHR 0x22, CHR '' '']) '' '' =
     [[CHR ''6'', CHR 0x27, CHR ''2'', CHR 0x22], []]"
    by code_simp
  ultimately show ?thesis
    using x by simp
qed

section \<open>Level-up moves\<close>

text \<open>
  C8.  When the document has no anchor named \<open>standardlevel\<close>, the level-up extractor
  raises AttributeError and the whole extraction raises, after logging the error with the
  URL.  When the anchor is there, nothing is raised by the extractor: the list is empty
  when the anchor has no enclosing table, and otherwise it holds, for every row of the
  enclosing table after the first two that has at least two cells, the entry
  \<open>"<level>: <move>"\<close> built from the stripped texts of the cells 0 and 1, in document
  order; it is the \<open>level_up_moves\<close> field of every record extracted from the document.
  A table with fewer than three rows gives the empty list.
\<close>

theorem level_up_moves_rows:
  "(find ([], soup) ''a'' [(''name'', ''standardlevel'')] None = None \<longrightarrow>
      extract_level_up_moves soup = Inl AttributeError \<and>
      (web (url_of k) = Inr soup \<longrightarrow>
         isl (fst (extract_statistics web k)) \<and>
         snd (extract_statistics web k) =
           [Get (url_of k), LogError (extraction_error_message (url_of k))])) \<and>
   (find ([], soup) ''a'' [(''name'', ''standardlevel'')] None = Some anchor \<longrightarrow>
      extract_level_up_moves soup =
        Inr (case find_parent soup anchor ''table'' of
               None \<Rightarrow> []
             | Some table \<Rightarrow>
                 map level_move (filter has_two_cells (drop 2 (find_all table ''tr'' [] None)))) \<and>
      (web (url_of k) = Inr soup \<and> fst (extract_statistics web k) = Inr p \<longrightarrow>
         level_up_moves p =
           (case find_parent soup anchor ''table'' of
               None \<Rightarrow> []
             | Some table \<Rightarrow>
                 map level_move (filter has_two_cells (drop 2 (find_all table ''tr'' [] None))))) \<and>
      (find_parent soup anchor ''table'' = Some table \<and> length (find_all table ''tr'' [] None) < 3 \<longrightarrow>
         extract_level_up_moves soup = Inr []))"
proof (intro conjI impI)
  assume none: "find ([], soup) ''a'' [(''name'', ''standardlevel'')] None = None"
  then show l: "extract_level_up_moves soup = Inl AttributeError"
    by (simp add: extract_level_up_moves_def attr_of_def)
  {
    assume w: "web (url_of k) = Inr soup"
    obtain ms where egg: "extract_egg_moves soup = Inr ms"
      using egg_moves_total by blast
    have "\<exists>e. try_block soup = Inl e"
      unfolding try_block_def Let_def l
      by (auto simp: and_then_def split: sum.splits)
    then obtain e where e: "try_block soup = Inl e" by blast
    then have "is_Exception e"
      using try_block_exceptions is_Exception_extraction by blast
    with e w show "isl (fst (extract_statistics web k))"
      and "snd (extract_statistics web k) =
           [Get (url_of k), LogError (extraction_error_message (url_of k))]"
      by (simp_all add: extract_statistics_def Let_def)
  }
next
  assume some: "find ([], soup) ''a'' [(''name'', ''standardlevel'')] None = Some anchor"
  then show l: "extract_level_up_moves soup =
        Inr (case find_parent soup anchor ''table'' of
               None \<Rightarrow> []
             | Some table \<Rightarrow>
                 map level_move (filter has_two_cells (drop 2 (find_all table ''tr'' [] None))))"
    by (simp add: extract_level_up_moves_def attr_of_def level_up_rows_closed split: option.splits)
  {
    assume "web (url_of k) = Inr soup \<and> fst (extract_statistics web k) = Inr p"
    with extract_statistics_parts[of web k soup p] l
    show "level_up_moves p =
           (case find_parent soup anchor ''table'' of
               None \<Rightarrow> []
             | Some table \<Rightarrow>
                 map level_move (filter has_two_cells (drop 2 (find_all table ''tr'' [] None))))"
      by auto
  }
  {
    assume "find_parent soup anchor ''table'' = Some table \<and> length (find_all table ''tr'' [] None) < 3"
    with l show "extract_level_up_moves soup = Inr []"
      by simp
  }
qed



theorem level_up_moves_rows_witness:
  "isl (fst (extract_statistics no_level_web 1)) \<and>
   snd (extract_statistics no_level_web 1) =
     [Get (url_of 1), LogError (extraction_error_message (url_of 1))] \<and>
   extract_level_up_moves legacy_page = Inr [''1: Tackle'', ''3: Growl''] \<and>
   level_up_moves (legacy_record 1) = [''1: Tackle'', ''3: Growl'']"
proof -
  define anchor where "anchor = the (find ([], legacy_page) ''a'' [(''name'', ''standardlevel'')] None)"
  have none: "find ([], no_level_page) ''a'' [(''name'', ''standardlevel'')] None = None"
    by code_simp
  have w0: "no_level_web (url_of 1) = Inr no_level_page"
    by (simp add: no_level_web_def)
  have some: "find ([], legacy_page) ''a'' [(''name'', ''standardlevel'')] None = Some anchor"
    unfolding anchor_def by code_simp
  have rows: "(case find_parent legacy_page anchor ''table'' of
               None \<Rightarrow> []
             | Some table \<Rightarrow>
                 map level_move (filter has_two_cells (drop 2 (find_all table ''tr'' [] None)))) =
             [''1: Tackle'', ''3: Growl'']"
    unfolding anchor_def by code_simp
  have w: "legacy_web (url_of 1) = Inr legacy_page"
    by (simp add: legacy_web_def)
  have x: "fst (extract_statistics legacy_web 1) = Inr (legacy_record 1)"
    by (simp add: legacy_extract)
  from level_up_moves_rows[where soup = no_level_page and web = no_level_web and k = 1] none w0
  have a: "isl (fst (extract_statistics no_level_web 1)) \<and>
   snd (extract_statistics no_level_web 1) =
     [Get (url_of 1), LogError (extraction_error_message (url_of 1))]"
    by blast
  from level_up_moves_rows[where soup = legacy_page and anchor = anchor and web = legacy_web and k = 1
      and p = "legacy_record 1"] some w x
  have "extract_level_up_moves legacy_page =
        Inr (case find_parent legacy_page anchor ''table'' of
               None \<Rightarrow> []
             | Some table \<Rightarrow>
                 map level_move (filter has_two_cells (drop 2 (find_all table ''tr'' [] None))))"
    and "level_up_moves (legacy_record 1) =
           (case find_parent legacy_page anchor ''table'' of
               None \<Rightarrow> []
             | Some table \<Rightarrow>
                 map level_move (filter has_two_cells (drop 2 (find_all table ''tr'' [] None))))"
    by blast+
  then have b: "extract_level_up_moves legacy_page = Inr [''1: Tackle'', ''3: Growl''] \<and>
   level_up_moves (legacy_record 1) = [''1: Tackle'', ''3: Growl'']"
    unfolding rows by simp
  from a b show ?thesis by blast
qed

section \<open>Abilities\<close>

lemma find_all_nodes:
  "map snd (find_all (p, n) tg attrs txt) = map snd (find_all (q, n) tg attrs txt)"
proof -
  have f: "map snd (filter (\<lambda>(p, nd). matches tg attrs txt nd) xs) =
            filter (matches tg attrs txt) (map snd xs)" for xs :: "element list"
    by (induction xs) auto
  have "map snd (filter (\<lambda>(p, nd). matches tg attrs txt nd) (descendants p n)) =
        filter (matches tg attrs txt) (map snd (descendants p n))"
    by (rule f)
  also have "\<dots> = filter (matches tg attrs txt) (map snd (descendants q n))"
    by (simp only: descendants_nodes(1)[of p n q])
  also have "\<dots> = map snd (filter (\<lambda>(p, nd). matches tg attrs txt nd) (descendants q n))"
    by (rule f[symmetric])
  finally show ?thesis
    by (simp add: find_all_def)
qed

lemma abilities_cells_closed:
  "abilities_cells cells acc = acc @ map (\<lambda>cell. ability_entry (snd cell)) cells"
  by (induction cells arbitrary: acc) (simp_all add: ability_entry_def)

lemma abilities_rows_closed:
  "abilities_rows rows acc =
     acc @ concat (map (\<lambda>row. map (\<lambda>cell. ability_entry (snd cell)) (find_all row ''td'' [] None))
                     (filter (\<lambda>row. contains ''Abilities'' (get_text (snd row))) rows))"
  by (induction rows arbitrary: acc) (simp_all add: abilities_cells_closed)

lemma row_cells_nodes:
  "map (\<lambda>cell. ability_entry (snd cell)) (find_all row ''td'' [] None) = row_entries (snd row)"
proof -
  have "map snd (find_all row ''td'' [] None) = map snd (find_all ([], snd row) ''td'' [] None)"
    using find_all_nodes[of "fst row" "snd row"] by simp
  then have "map ability_entry (map snd (find_all row ''td'' [] None)) =
             map ability_entry (map snd (find_all ([], snd row) ''td'' [] None))"
    by (rule arg_cong)
  then show ?thesis
    by (simp add: comp_def row_entries_def)
qed

lemma abilities_rows_nodes:
  "concat (map (\<lambda>row. map (\<lambda>cell. ability_entry (snd cell)) (find_all row ''td'' [] None))
                     (filter (\<lambda>row. contains ''Abilities'' (get_text (snd row))) rows)) =
   concat (map row_entries (filter (\<lambda>row. contains ''Abilities'' (get_text row)) (map snd rows)))"
  by (induction rows) (simp_all add: row_cells_nodes)

lemma abilities_rows_table:
  "abilities_rows (find_all t ''tr'' [] None) [] = abilities_of_table (snd t)"
proof -
  have "map snd (find_all t ''tr'' [] None) = map snd (find_all ([], snd t) ''tr'' [] None)"
    using find_all_nodes[of "fst t" "snd t"] by simp
  then show ?thesis
    by (simp add: abilities_rows_closed abilities_rows_nodes abilities_of_table_def)
qed

text \<open>
  C10.  The abilities are read from the first table of class \<open>dextable\<close> in document
  order and from nothing else: they are the entries of that table (every cell of every
  row whose text contains \<open>Abilities\<close>, with \<open>(Hidden)\<close> appended to the cells containing
  \<open>Hidden Ability\<close>), whatever tables of that class follow, and the empty list when there
  is no such table.  They are the \<open>abilities\<close> field of every record extracted from the
  document.
\<close>

theorem abilities_from_first_dextable:
  "extract_abilities soup =
     (case find_all ([], soup) ''table'' [(''class'', ''dextable'')] None of
        [] \<Rightarrow> []
      | first_table # later_tables \<Rightarrow> abilities_of_table (snd first_table)) \<and>
   (web (url_of k) = Inr soup \<and> fst (extract_statistics web k) = Inr p \<longrightarrow>
      abilities p = extract_abilities soup)"
proof -
  have "extract_abilities soup =
     (case find_all ([], soup) ''table'' [(''class'', ''dextable'')] None of
        [] \<Rightarrow> []
      | first_table # later_tables \<Rightarrow> abilities_of_table (snd first_table))"
    by (simp add: extract_abilities_def find_def abilities_rows_table split: list.splits)
  with extract_statistics_parts[of web k soup p] show ?thesis
    by auto
qed

theorem abilities_from_first_dextable_witness:
  "length (find_all ([], two_dextables_page) ''table'' [(''class'', ''dextable'')] None) = 2 \<and>
   extract_abilities two_dextables_page =
     [''Abilities: Overgrow'', ''Hidden Ability: Chlorophyll (Hidden)''] \<and>
   abilities (legacy_record 1) = extract_abilities legacy_page"
proof -
  have n: "length (find_all ([], two_dextables_page) ''table'' [(''class'', ''dextable'')] None) = 2"
    by code_simp
  have t: "(case find_all ([], two_dextables_page) ''table'' [(''class'', ''dextable'')] None of
        [] \<Rightarrow> []
      | first_table # later_tables \<Rightarrow> abilities_of_table (snd first_table)) =
      [''Abilities: Overgrow'', ''Hidden Ability: Chlorophyll (Hidden)'']"
    by code_simp
  have w: "legacy_web (url_of 1) = Inr legacy_page"
    by (simp add: legacy_web_def)
  have x: "fst (extract_statistics legacy_web 1) = Inr (legacy_record 1)"
    by (simp add: legacy_extract)
  from abilities_from_first_dextable[where soup = two_dextables_page]
  have a: "extract_abilities two_dextables_page =
     [''Abilities: Overgrow'', ''Hidden Ability: Chlorophyll (Hidden)'']"
    unfolding t by blast
  from abilities_from_first_dextable[where soup = legacy_page and web = legacy_web and k = 1
      and p = "legacy_record 1"] w x
  have b: "abilities (legacy_record 1) = extract_abilities legacy_page"
    by blast
  from n a b show ?thesis by blast
qed

end
